theory Spec2Isabelle
  imports Main "HOL-Library.Multiset"
begin

section \<open>Data model (src/types/database.ts)\<close>

text \<open>
  Cards, phase requirements, the game row and the player rows, as the TypeScript
  interfaces declare them. Field names that clash with constants of HOL carry a prefix:
  \<open>card_id\<close>, \<open>card_color\<close>, \<open>card_value\<close> for \<open>Card.id\<close>, \<open>Card.color\<close>,
  \<open>Card.value\<close>; \<open>req_type\<close>, \<open>req_size\<close>, \<open>quantity\<close> for a requirement.
  A card's value is a JavaScript number: 1 to 12, 0 for a wild, -1 for a skip.
  Sizes, quantities, indices and scores are counts and are naturals here.
\<close>

datatype CardColor = red | blue | green | yellow

record Card =
  card_id :: string
  card_color :: CardColor
  card_value :: int
  isWild :: bool
  isSkip :: bool

datatype PhaseRequirementType = set_req | run_req | color_req

record PhaseRequirement =
  req_type :: PhaseRequirementType
  req_size :: nat
  quantity :: nat

section \<open>Deck Manager (src/utils/deck.ts)\<close>

definition COLORS :: "CardColor list" where
  "COLORS = [red, blue, green, yellow]"

definition VALUES :: "int list" where
  "VALUES = [1, 2, 3, 4, 5, 6, 7, 8, 9, 10, 11, 12]"

definition WILD_COUNT :: nat where
  "WILD_COUNT = 8"

definition SKIP_COUNT :: nat where
  "SKIP_COUNT = 4"

text \<open>
  \<open>generateCardId\<close> returns \<open>Math.random().toString(36).substring(2, 9)\<close>. The random
  source is a parameter of the model: \<open>gen k\<close> is the string that the \<open>k\<close>-th call of
  \<open>generateCardId\<close> inside one run of \<open>createDeck\<close> returns (calls are numbered from 0
  in the order the loops make them).
\<close>

definition numberCards :: "(CardColor \<times> int \<times> bool \<times> bool) list" where
  "numberCards =
     concat (map (\<lambda>copy. concat (map (\<lambda>c. map (\<lambda>v. (c, v, False, False)) VALUES) COLORS))
       [0..<2])"

definition wildCards :: "(CardColor \<times> int \<times> bool \<times> bool) list" where
  "wildCards = map (\<lambda>i. (COLORS ! (i mod 4), 0, True, False)) [0..<WILD_COUNT]"

definition skipCards :: "(CardColor \<times> int \<times> bool \<times> bool) list" where
  "skipCards = map (\<lambda>i. (COLORS ! i, - 1, False, True)) [0..<SKIP_COUNT]"

definition mkCard :: "(nat \<Rightarrow> string) \<Rightarrow> nat \<times> CardColor \<times> int \<times> bool \<times> bool \<Rightarrow> Card" where
  "mkCard gen = (\<lambda>(k, c, v, w, s).
     \<lparr>card_id = gen k, card_color = c, card_value = v, isWild = w, isSkip = s\<rparr>)"

definition createDeck :: "(nat \<Rightarrow> string) \<Rightarrow> Card list" where
  "createDeck gen = map (mkCard gen) (enumerate 0 (numberCards @ wildCards @ skipCards))"

text \<open>
  Fisher-Yates shuffle. \<open>Math.floor(Math.random() * (i + 1))\<close> is some index between 0
  and \<open>i\<close>; the model takes the raw draws as a parameter (\<open>rnd i\<close> is the draw made at
  loop index \<open>i\<close>) and reduces each one modulo \<open>i + 1\<close>. The loop runs \<open>i\<close> from
  \<open>length - 1\<close> down to 1; the swap reads both cells before it writes them.
\<close>

fun shuffle_loop :: "(nat \<Rightarrow> nat) \<Rightarrow> nat \<Rightarrow> 'a list \<Rightarrow> 'a list" where
  "shuffle_loop rnd 0 shuffled = shuffled"
| "shuffle_loop rnd (Suc i) shuffled =
     (let j = rnd (Suc i) mod (Suc i + 1)
      in shuffle_loop rnd i (shuffled[Suc i := shuffled ! j, j := shuffled ! Suc i]))"

definition shuffle :: "(nat \<Rightarrow> nat) \<Rightarrow> 'a list \<Rightarrow> 'a list" where
  "shuffle rnd array = shuffle_loop rnd (length array - 1) array"

definition dealCards :: "Card list \<Rightarrow> nat \<Rightarrow> Card list \<times> Card list" where
  "dealCards deck cnt = (take cnt deck, drop cnt deck)"

fun dealHands_loop :: "nat \<Rightarrow> nat \<Rightarrow> Card list list \<Rightarrow> Card list \<Rightarrow> Card list list \<times> Card list" where
  "dealHands_loop 0 cardsPerPlayer hands remaining = (hands, remaining)"
| "dealHands_loop (Suc n) cardsPerPlayer hands remaining =
     (case dealCards remaining cardsPerPlayer of
        (hand, newRemaining) \<Rightarrow> dealHands_loop n cardsPerPlayer (hands @ [hand]) newRemaining)"

definition dealHands :: "Card list \<Rightarrow> nat \<Rightarrow> nat \<Rightarrow> Card list list \<times> Card list" where
  "dealHands deck playerCount cardsPerPlayer = dealHands_loop playerCount cardsPerPlayer [] deck"

definition createShuffledDeck :: "(nat \<Rightarrow> string) \<Rightarrow> (nat \<Rightarrow> nat) \<Rightarrow> Card list" where
  "createShuffledDeck gen rnd = shuffle rnd (createDeck gen)"

text \<open>
  The \<open>while (drawPile.length > 0)\<close> loop of \<open>setupGame\<close>: it may, as written, run for
  ever (a non-empty pile of skip cards only), so it is a partial function; \<open>None\<close>
  means that the loop does not return. The result is the pair (drawPile, discardPile).
\<close>

partial_function (option) flipTopCard :: "Card list \<Rightarrow> (Card list \<times> Card list) option" where
  "flipTopCard drawPile =
     (if length drawPile > 0 then
        (if isSkip (hd (fst (dealCards drawPile 1)))
         then flipTopCard (snd (dealCards drawPile 1) @ [hd (fst (dealCards drawPile 1))])
         else Some (snd (dealCards drawPile 1), fst (dealCards drawPile 1)))
      else Some (drawPile, []))"

record Setup =
  hands :: "Card list list"
  drawPile :: "Card list"
  discardPile :: "Card list"

definition setupGame :: "(nat \<Rightarrow> string) \<Rightarrow> (nat \<Rightarrow> nat) \<Rightarrow> nat \<Rightarrow> Setup option" where
  "setupGame gen rnd playerCount =
     (let deck = createShuffledDeck gen rnd in
      case dealHands deck playerCount 10 of
        (hs, remaining) \<Rightarrow>
          (case flipTopCard remaining of
             None \<Rightarrow> None
           | Some (dp, disc) \<Rightarrow> Some \<lparr>hands = hs, drawPile = dp, discardPile = disc\<rparr>))"

fun getCardPoints :: "Card \<Rightarrow> nat" where
  "getCardPoints c =
     (if isWild c then 25
      else if isSkip c then 15
      else if card_value c \<ge> 10 then 10
      else 5)"

definition calculateHandScore :: "Card list \<Rightarrow> nat" where
  "calculateHandScore hand = foldl (\<lambda>total c. total + getCardPoints c) 0 hand"

text \<open>
  \<open>removeCardById\<close> returns the removed card (\<open>None\<close> for JavaScript's \<open>undefined\<close>) and
  the remaining cards; \<open>findIndex\<close> is the position of the first card with that id.
\<close>

fun findIndex :: "('a \<Rightarrow> bool) \<Rightarrow> 'a list \<Rightarrow> nat option" where
  "findIndex P [] = None"
| "findIndex P (x # xs) =
     (if P x then Some 0 else (case findIndex P xs of None \<Rightarrow> None | Some i \<Rightarrow> Some (Suc i)))"

definition removeCardById :: "Card list \<Rightarrow> string \<Rightarrow> Card option \<times> Card list" where
  "removeCardById cards cardId =
     (case findIndex (\<lambda>c. card_id c = cardId) cards of
        None \<Rightarrow> (None, cards)
      | Some index \<Rightarrow> (Some (cards ! index), take index cards @ drop (index + 1) cards))"

section \<open>Phase Matcher (src/utils/phaseValidation.ts)\<close>

text \<open>
  The two messages that \<open>validatePhase\<close> builds from template strings are constructors
  with the interpolated numbers as arguments; the fixed messages of the store follow
  further down in the same datatype.
\<close>

datatype error =
    NeedExactly nat nat
  | CannotSatisfy PhaseRequirementType nat
  | NotYourTurn
  | AlreadyDrew
  | NoCardsLeft
  | DiscardPileEmpty
  | CannotLayDownNow
  | AlreadyLaidDown
  | InvalidPhase
  | CannotHitNow
  | MustLayDownFirst
  | InvalidTargetPlayer
  | InvalidGroup
  | CardCannotBeAdded
  | MustDrawFirst
  | CardNotInHand
  | TypeError

record ValidationResult =
  valid :: bool
  groups :: "Card list list"
  verror :: "error option"

definition isValidSet :: "Card list \<Rightarrow> nat \<Rightarrow> bool" where
  "isValidSet nonWilds wildCount =
     (if length nonWilds = 0 then True
      else length (remdups (map card_value nonWilds)) \<le> 1)"

definition isValidRun :: "Card list \<Rightarrow> nat \<Rightarrow> nat \<Rightarrow> bool" where
  "isValidRun nonWilds wildCount targetSize =
     (if length nonWilds = 0 then True
      else
        (let vals = sort (map card_value nonWilds);
             min_v = hd vals;
             max_v = last vals
         in if length (remdups vals) \<noteq> length vals then False
            else
              (let span = max_v - min_v + 1
               in if span > int targetSize then False
                  else
                    (let gaps = span - int (length nonWilds);
                         extraNeeded = int targetSize - span
                     in gaps \<le> int wildCount \<and> extraNeeded \<ge> 0
                        \<and> gaps + extraNeeded \<le> int wildCount))))"

definition isValidColor :: "Card list \<Rightarrow> nat \<Rightarrow> bool" where
  "isValidColor nonWilds wildCount =
     (if length nonWilds = 0 then True
      else length (remdups (map card_color nonWilds)) \<le> 1)"

definition isValidGroup :: "Card list \<Rightarrow> PhaseRequirementType \<Rightarrow> bool" where
  "isValidGroup cards t =
     (let wilds = filter isWild cards;
          nonWilds = filter (\<lambda>c. \<not> isWild c \<and> \<not> isSkip c) cards
      in if list_ex isSkip cards then False
         else (case t of
                 set_req \<Rightarrow> isValidSet nonWilds (length wilds)
               | run_req \<Rightarrow> isValidRun nonWilds (length wilds) (length cards)
               | color_req \<Rightarrow> isValidColor nonWilds (length wilds)))"

definition removeCards :: "Card list \<Rightarrow> Card list \<Rightarrow> Card list" where
  "removeCards cards toRemove =
     (let removeIds = set (map card_id toRemove)
      in filter (\<lambda>c. card_id c \<notin> removeIds) cards)"

text \<open>
  \<open>getCombinations\<close>: the inner \<open>backtrack(start, current)\<close> pushes a copy of \<open>current\<close>
  onto the shared result when it has \<open>k\<close> elements, and otherwise extends it by each
  \<open>array[i]\<close>, \<open>i\<close> from \<open>start\<close>, in turn. The model returns the pushed lists in the
  order of the pushes.
\<close>

function backtrack :: "'a list \<Rightarrow> nat \<Rightarrow> nat \<Rightarrow> 'a list \<Rightarrow> 'a list list" where
  "backtrack array k start current =
     (if length current = k then [current]
      else concat (map (\<lambda>i. backtrack array k (i + 1) (current @ [array ! i]))
                     [start..<length array]))"
  by pat_completeness auto
termination
  by (relation "measure (\<lambda>(array, k, start, current). length array - start)") auto

definition getCombinations :: "'a list \<Rightarrow> nat \<Rightarrow> 'a list list" where
  "getCombinations array k = backtrack array k 0 []"

definition findValidGroups :: "Card list \<Rightarrow> PhaseRequirementType \<Rightarrow> nat \<Rightarrow> Card list list" where
  "findValidGroups cards t sz = filter (\<lambda>combo. isValidGroup combo t) (getCombinations cards sz)"

text \<open>
  \<open>tryAssignCards\<close> with its \<open>for (const group of possibleGroups)\<close> loop as the second
  function \<open>tryGroups\<close>, whose last argument is the part of \<open>possibleGroups\<close> not yet
  tried.
\<close>

definition req_weight :: "PhaseRequirement \<Rightarrow> nat" where
  "req_weight r = 2 * max (quantity r) 1 - 1"

function tryAssignCards :: "Card list \<Rightarrow> PhaseRequirement list \<Rightarrow> Card list list \<Rightarrow> ValidationResult"
  and tryGroups :: "Card list \<Rightarrow> PhaseRequirement \<Rightarrow> PhaseRequirement list \<Rightarrow> Card list list
                      \<Rightarrow> Card list list \<Rightarrow> ValidationResult" where
  "tryAssignCards remainingCards [] assignedGroups =
     \<lparr>valid = True, groups = assignedGroups, verror = None\<rparr>"
| "tryAssignCards remainingCards (currentReq # otherReqs) assignedGroups =
     (if quantity currentReq > 1 then
        tryAssignCards remainingCards
          (currentReq\<lparr>quantity := 1\<rparr> # currentReq\<lparr>quantity := quantity currentReq - 1\<rparr> # otherReqs)
          assignedGroups
      else
        tryGroups remainingCards currentReq otherReqs assignedGroups
          (findValidGroups remainingCards (req_type currentReq) (req_size currentReq)))"
| "tryGroups remainingCards currentReq otherReqs assignedGroups [] =
     \<lparr>valid = False, groups = [],
      verror = Some (CannotSatisfy (req_type currentReq) (req_size currentReq))\<rparr>"
| "tryGroups remainingCards currentReq otherReqs assignedGroups (g # rest) =
     (let newRemaining = removeCards remainingCards g;
          result = tryAssignCards newRemaining otherReqs (assignedGroups @ [g])
      in if valid result then result
         else tryGroups remainingCards currentReq otherReqs assignedGroups rest)"
  by pat_completeness auto
termination
  by (relation "measures
        [\<lambda>x. case x of
                Inl (cs, rs, acc) \<Rightarrow> 2 * sum_list (map req_weight rs)
              | Inr (cs, r, rs, acc, gs) \<Rightarrow> 2 * sum_list (map req_weight rs) + 1,
         \<lambda>x. case x of Inl _ \<Rightarrow> 0 | Inr (cs, r, rs, acc, gs) \<Rightarrow> length gs]")
     (auto simp: req_weight_def)

definition validatePhase :: "Card list \<Rightarrow> PhaseRequirement list \<Rightarrow> ValidationResult" where
  "validatePhase cards requirements =
     (let totalNeeded = foldl (\<lambda>sum req. sum + req_size req * quantity req) 0 requirements
      in if length cards \<noteq> totalNeeded
         then \<lparr>valid = False, groups = [],
               verror = Some (NeedExactly totalNeeded (length cards))\<rparr>
         else tryAssignCards cards requirements [])"

definition canHitOnGroup :: "Card \<Rightarrow> Card list \<Rightarrow> PhaseRequirementType \<Rightarrow> bool" where
  "canHitOnGroup c grp t =
     (if isSkip c then False
      else if isWild c then True
      else
        (let nonWilds = filter (\<lambda>x. \<not> isWild x) grp
         in case t of
              set_req \<Rightarrow>
                (if length nonWilds = 0 then True
                 else card_value c = card_value (hd nonWilds))
            | run_req \<Rightarrow>
                (let vals = sort (map card_value nonWilds)
                 in if length vals = 0 then True
                    else
                      (let min_v = hd vals;
                           max_v = last vals;
                           runLength = int (length grp);
                           theoreticalMin = max_v - runLength + 1;
                           theoreticalMax = min_v + runLength - 1
                       in card_value c = theoreticalMin - 1 \<or> card_value c = theoreticalMax + 1))
            | color_req \<Rightarrow>
                (if length nonWilds = 0 then True
                 else card_color c = card_color (hd nonWilds))))"

definition isSequential :: "int list \<Rightarrow> bool" where
  "isSequential sortedValues =
     list_all (\<lambda>i. i = 0 \<or> sortedValues ! i = sortedValues ! (i - 1) + 1)
       [0..<length sortedValues]"

definition determineGroupType :: "Card list \<Rightarrow> PhaseRequirementType option" where
  "determineGroupType grp =
     (let nonWilds = filter (\<lambda>c. \<not> isWild c \<and> \<not> isSkip c) grp
      in if length nonWilds = 0 then Some set_req
         else if length (remdups (map card_value nonWilds)) = 1 then Some set_req
         else if length (remdups (map card_color nonWilds)) = 1 then
           (if isSequential (sort (map card_value nonWilds)) then Some run_req
            else Some color_req)
         else
           (let sortedValues = sort (map card_value nonWilds);
                minVal = hd sortedValues;
                maxVal = last sortedValues
            in if maxVal - minVal + 1 = int (length nonWilds)
                  \<and> length (remdups sortedValues) = length nonWilds
               then Some run_req
               else
                 (let gaps = maxVal - minVal + 1 - int (length nonWilds);
                      wildCount = int (length grp) - int (length nonWilds)
                  in if gaps \<le> wildCount then Some run_req else None)))"

section \<open>Turn Engine and Round Scorer (src/stores/gameStore.ts)\<close>

text \<open>
  The store holds the game row, the player rows, the phase set and the last error; the
  actions read this snapshot and write the rows through the persistence layer, whose
  change feed puts the written rows back into the store. The model applies the writes to
  the snapshot directly: an action maps a store to a success flag and the store that
  results once its writes have arrived. Fields that no action reads or writes (join code,
  password, host, timestamps, settings, connectivity, the selection and loading flags of
  the user interface, the profile statistics) are left out.

  \<open>user\<close> is the signed-in user of the client that acts. Both places that fill the store
  (\<open>loadGame\<close> and the change feed) set \<open>currentPlayer\<close> to
  \<open>players.find(p => p.user_id === user.id)\<close>, which is \<open>currentPlayer\<close> below.
  A \<open>phaseSet\<close> of \<open>None\<close> is JavaScript's \<open>null\<close>.
\<close>

datatype GameStatus = lobby | playing | finished | abandoned

datatype TurnPhase = draw | play | discard

datatype Pile = draw_pile_choice | discard_pile_choice

record Game =
  status :: GameStatus
  current_player_index :: nat
  turn_phase :: TurnPhase
  draw_pile :: "Card list"
  discard_pile :: "Card list"

record GamePlayer =
  player_id :: string
  user_id :: string
  seat_index :: nat
  hand :: "Card list"
  current_phase_index :: nat
  has_laid_down :: bool
  laid_down_cards :: "Card list list"
  hits :: "Card list"
  score :: nat

record GameState =
  game :: Game
  players :: "GamePlayer list"
  user :: string
  phaseSet :: "PhaseRequirement list list option"
  error :: "error option"

definition currentPlayer :: "GameState \<Rightarrow> GamePlayer option" where
  "currentPlayer s = find (\<lambda>p. user_id p = user s) (players s)"

text \<open>
  \<open>.update(row).eq('id', pid)\<close> on the player table: every row with that id gets the
  written fields.
\<close>

definition update_player :: "string \<Rightarrow> (GamePlayer \<Rightarrow> GamePlayer) \<Rightarrow> GamePlayer list \<Rightarrow> GamePlayer list" where
  "update_player pid f ps = map (\<lambda>p. if player_id p = pid then f p else p) ps"

text \<open>
  The turn check shared by the four actions:
  \<open>sortedPlayers[game.current_player_index]?.user_id !== currentPlayer.user_id\<close>; an
  index outside the array gives \<open>undefined\<close>, which differs from every user id.
\<close>

definition sortedPlayers :: "GameState \<Rightarrow> GamePlayer list" where
  "sortedPlayers s = sort_key seat_index (players s)"

definition notYourTurn :: "GameState \<Rightarrow> GamePlayer \<Rightarrow> bool" where
  "notYourTurn s cp =
     (if current_player_index (game s) < length (sortedPlayers s)
      then user_id (sortedPlayers s ! current_player_index (game s)) \<noteq> user_id cp
      else True)"

definition fail :: "GameState \<Rightarrow> error \<Rightarrow> bool \<times> GameState" where
  "fail s e = (False, s\<lparr>error := Some e\<rparr>)"

definition drawCommit :: "GameState \<Rightarrow> GamePlayer \<Rightarrow> Card \<Rightarrow> Card list \<Rightarrow> Card list \<Rightarrow> bool \<times> GameState" where
  "drawCommit s cp c newDrawPile newDiscardPile =
     (let newHand = hand cp @ [c]
      in (True,
          s\<lparr>game := (game s)\<lparr>draw_pile := newDrawPile, discard_pile := newDiscardPile,
                               turn_phase := play\<rparr>,
            players := update_player (player_id cp) (\<lambda>p. p\<lparr>hand := newHand\<rparr>) (players s),
            error := None\<rparr>))"

definition drawCard :: "(nat \<Rightarrow> nat) \<Rightarrow> Pile \<Rightarrow> GameState \<Rightarrow> bool \<times> GameState" where
  "drawCard rnd pile s =
     (case currentPlayer s of
        None \<Rightarrow> (False, s)
      | Some cp \<Rightarrow>
          if notYourTurn s cp then fail s NotYourTurn
          else if turn_phase (game s) \<noteq> draw then fail s AlreadyDrew
          else
            (let newDrawPile = draw_pile (game s);
                 newDiscardPile = discard_pile (game s)
             in case pile of
                  draw_pile_choice \<Rightarrow>
                    (if length newDrawPile = 0 then
                       (if length newDiscardPile \<le> 1 then fail s NoCardsLeft
                        else
                          (let topDiscard = last newDiscardPile;
                               reshuffled = shuffle rnd (butlast newDiscardPile)
                           in drawCommit s cp (last reshuffled) (butlast reshuffled) [topDiscard]))
                     else drawCommit s cp (last newDrawPile) (butlast newDrawPile) newDiscardPile)
                | discard_pile_choice \<Rightarrow>
                    (if length newDiscardPile = 0 then fail s DiscardPileEmpty
                     else drawCommit s cp (last newDiscardPile) newDrawPile (butlast newDiscardPile))))"

definition layDownPhase :: "Card list list \<Rightarrow> GameState \<Rightarrow> bool \<times> GameState" where
  "layDownPhase cardGroups s =
     (case currentPlayer s of
        None \<Rightarrow> (False, s)
      | Some cp \<Rightarrow>
          (case phaseSet s of
             None \<Rightarrow> (False, s)
           | Some phases \<Rightarrow>
               if notYourTurn s cp then fail s NotYourTurn
               else if turn_phase (game s) \<noteq> play then fail s CannotLayDownNow
               else if has_laid_down cp then fail s AlreadyLaidDown
               else if \<not> current_phase_index cp < length phases then fail s InvalidPhase
               else
                 (let requirements = phases ! current_phase_index cp;
                      allCards = concat cardGroups;
                      result = validatePhase allCards requirements
                  in if \<not> valid result
                     then fail s (case verror result of Some e \<Rightarrow> e | None \<Rightarrow> InvalidPhase)
                     else
                       (let newHand = foldl (\<lambda>h c. snd (removeCardById h (card_id c))) (hand cp) allCards
                        in (True,
                            s\<lparr>players :=
                                update_player (player_id cp)
                                  (\<lambda>p. p\<lparr>hand := newHand, has_laid_down := True,
                                          laid_down_cards := cardGroups\<rparr>)
                                  (players s),
                              error := None\<rparr>)))))"

definition hitOnGroup :: "string \<Rightarrow> nat \<Rightarrow> Card \<Rightarrow> GameState \<Rightarrow> bool \<times> GameState" where
  "hitOnGroup targetPlayerId groupIndex c s =
     (case currentPlayer s of
        None \<Rightarrow> (False, s)
      | Some cp \<Rightarrow>
          if notYourTurn s cp then fail s NotYourTurn
          else if turn_phase (game s) \<noteq> play then fail s CannotHitNow
          else if \<not> has_laid_down cp then fail s MustLayDownFirst
          else
            (case find (\<lambda>p. player_id p = targetPlayerId) (players s) of
               None \<Rightarrow> fail s InvalidTargetPlayer
             | Some targetPlayer \<Rightarrow>
                 if \<not> has_laid_down targetPlayer then fail s InvalidTargetPlayer
                 else if \<not> groupIndex < length (laid_down_cards targetPlayer) then fail s InvalidGroup
                 else
                   (let targetGroup = laid_down_cards targetPlayer ! groupIndex
                    in case determineGroupType targetGroup of
                         None \<Rightarrow> fail s CardCannotBeAdded
                       | Some groupType \<Rightarrow>
                           if \<not> canHitOnGroup c targetGroup groupType then fail s CardCannotBeAdded
                           else
                             (let newHand = snd (removeCardById (hand cp) (card_id c));
                                  newLaidDownCards =
                                    (laid_down_cards targetPlayer)[groupIndex := targetGroup @ [c]]
                              in (True,
                                  s\<lparr>players :=
                                      update_player (player_id targetPlayer)
                                        (\<lambda>p. p\<lparr>laid_down_cards := newLaidDownCards\<rparr>)
                                        (update_player (player_id cp) (\<lambda>p. p\<lparr>hand := newHand\<rparr>)
                                           (players s)),
                                    error := None\<rparr>)))))"

text \<open>
  \<open>handleRoundEnd\<close>. Its loop over \<open>players\<close> computes each row's new score and phase
  index from the snapshot it was given and writes them by player id. The result is
  \<open>None\<close> when \<open>setupGame\<close> does not return, \<open>Some (Inl e)\<close> when an exception leaves
  the function (the rows written before it stay written), \<open>Some (Inr s')\<close> otherwise.
  \<open>gen\<close> and \<open>rnd\<close> are the random sources of the new round's deck and shuffle.
\<close>

definition scoreRow :: "GamePlayer \<Rightarrow> GamePlayer \<Rightarrow> GamePlayer" where
  "scoreRow p row =
     (let handScore = calculateHandScore (hand p);
          newScore = score p + handScore;
          newPhaseIndex = (if has_laid_down p then current_phase_index p + 1
                           else current_phase_index p)
      in row\<lparr>score := newScore, current_phase_index := newPhaseIndex, hand := [],
             has_laid_down := False, laid_down_cards := [], hits := []\<rparr>)"

definition scorePlayers :: "GamePlayer list \<Rightarrow> GamePlayer list \<Rightarrow> GamePlayer list" where
  "scorePlayers snapshot rows =
     foldl (\<lambda>db p. update_player (player_id p) (scoreRow p) db) rows snapshot"

definition dealRows :: "GamePlayer list \<Rightarrow> Card list list \<Rightarrow> GamePlayer list \<Rightarrow> GamePlayer list" where
  "dealRows sortedPs hs rows =
     foldl (\<lambda>db i. update_player (player_id (sortedPs ! i)) (\<lambda>p. p\<lparr>hand := hs ! i\<rparr>) db)
       rows [0..<length sortedPs]"

definition handleRoundEnd ::
  "(nat \<Rightarrow> string) \<Rightarrow> (nat \<Rightarrow> nat) \<Rightarrow> GameState \<Rightarrow> GamePlayer list
     \<Rightarrow> PhaseRequirement list list option \<Rightarrow> (error \<times> GameState + GameState) option" where
  "handleRoundEnd gen rnd s snapshot ps =
     (let s1 = s\<lparr>players := scorePlayers snapshot (players s)\<rparr>
      in case ps of
           None \<Rightarrow> Some (Inl (TypeError, s1))
         | Some phases \<Rightarrow>
             (let maxPhase = length phases;
                  gameWinner = find (\<lambda>p. has_laid_down p \<and> current_phase_index p + 1 \<ge> maxPhase) snapshot
              in case gameWinner of
                   Some w \<Rightarrow> Some (Inr (s1\<lparr>game := (game s1)\<lparr>status := finished\<rparr>\<rparr>))
                 | None \<Rightarrow>
                     (case setupGame gen rnd (length snapshot) of
                        None \<Rightarrow> None
                      | Some su \<Rightarrow>
                          Some (Inr
                            (s1\<lparr>players := dealRows (sort_key seat_index snapshot) (hands su) (players s1),
                                game := (game s1)\<lparr>draw_pile := drawPile su,
                                                   discard_pile := discardPile su,
                                                   current_player_index := 0,
                                                   turn_phase := draw\<rparr>\<rparr>)))))"

definition discardCard ::
  "(nat \<Rightarrow> string) \<Rightarrow> (nat \<Rightarrow> nat) \<Rightarrow> Card \<Rightarrow> GameState \<Rightarrow> (bool \<times> GameState) option" where
  "discardCard gen rnd c s =
     (case currentPlayer s of
        None \<Rightarrow> Some (False, s)
      | Some cp \<Rightarrow>
          if notYourTurn s cp then Some (fail s NotYourTurn)
          else if turn_phase (game s) \<noteq> play then Some (fail s MustDrawFirst)
          else
            (case removeCardById (hand cp) (card_id c) of
               (None, newHand) \<Rightarrow> Some (fail s CardNotInHand)
             | (Some removedCard, newHand) \<Rightarrow>
                 (let newDiscardPile = discard_pile (game s) @ [removedCard];
                      isRoundOver = (length newHand = 0);
                      nextPlayerIndex = (current_player_index (game s) + 1) mod length (sortedPlayers s);
                      actualNextIndex = (if isSkip c then (nextPlayerIndex + 1) mod length (sortedPlayers s)
                                         else nextPlayerIndex)
                  in if isRoundOver then
                       (case handleRoundEnd gen rnd s (players s) (phaseSet s) of
                          None \<Rightarrow> None
                        | Some (Inl (e, s')) \<Rightarrow> Some (fail s' e)
                        | Some (Inr s') \<Rightarrow> Some (True, s'\<lparr>error := None\<rparr>))
                     else
                       Some (True,
                             s\<lparr>game := (game s)\<lparr>discard_pile := newDiscardPile,
                                                 current_player_index := actualNextIndex,
                                                 turn_phase := draw\<rparr>,
                               players := update_player (player_id cp) (\<lambda>p. p\<lparr>hand := newHand\<rparr>) (players s),
                               error := None\<rparr>))))"

section \<open>Reference definitions taken from the specification\<close>

text \<open>
  The run criterion in the words of the specification: after removing the wilds, the
  remaining ranks are pairwise distinct, \<open>max - min + 1\<close> is at most the size of the
  group, and the wilds are at least \<open>max - min + 1\<close> minus the number of cards that are
  not wild. The size is the number of cards of the group, as \<open>isValidGroup\<close> passes
  \<open>cards.length\<close>; with no card left after removing the wilds the span is taken as 0.
\<close>

definition runSpec :: "Card list \<Rightarrow> bool" where
  "runSpec cards =
     (let ranks = map card_value (filter (\<lambda>c. \<not> isWild c) cards);
          wildCount = length (filter isWild cards);
          span = (if ranks = [] then 0 else Max (set ranks) - Min (set ranks) + 1)
      in distinct ranks \<and> span \<le> int (length cards)
         \<and> int wildCount \<ge> span - int (length ranks))"

text \<open>Concrete cards and states used by the examples further down.\<close>

definition skipCard :: Card where
  "skipCard = \<lparr>card_id = ''s1'', card_color = red, card_value = - 1, isWild = False, isSkip = True\<rparr>"

definition getStandardPhases :: "PhaseRequirement list list" where
  "getStandardPhases =
     [[\<lparr>req_type = set_req, req_size = 3, quantity = 2\<rparr>],
      [\<lparr>req_type = set_req, req_size = 3, quantity = 1\<rparr>, \<lparr>req_type = run_req, req_size = 4, quantity = 1\<rparr>],
      [\<lparr>req_type = set_req, req_size = 4, quantity = 1\<rparr>, \<lparr>req_type = run_req, req_size = 4, quantity = 1\<rparr>],
      [\<lparr>req_type = run_req, req_size = 7, quantity = 1\<rparr>],
      [\<lparr>req_type = run_req, req_size = 8, quantity = 1\<rparr>],
      [\<lparr>req_type = run_req, req_size = 9, quantity = 1\<rparr>],
      [\<lparr>req_type = set_req, req_size = 4, quantity = 2\<rparr>],
      [\<lparr>req_type = color_req, req_size = 7, quantity = 1\<rparr>],
      [\<lparr>req_type = set_req, req_size = 5, quantity = 1\<rparr>, \<lparr>req_type = set_req, req_size = 2, quantity = 1\<rparr>],
      [\<lparr>req_type = set_req, req_size = 5, quantity = 1\<rparr>, \<lparr>req_type = set_req, req_size = 3, quantity = 1\<rparr>]]"

definition numCard :: "string \<Rightarrow> CardColor \<Rightarrow> int \<Rightarrow> Card" where
  "numCard i col v = \<lparr>card_id = i, card_color = col, card_value = v, isWild = False, isSkip = False\<rparr>"

definition wildCard :: "string \<Rightarrow> Card" where
  "wildCard i = \<lparr>card_id = i, card_color = red, card_value = 0, isWild = True, isSkip = False\<rparr>"

definition seat :: "string \<Rightarrow> nat \<Rightarrow> Card list \<Rightarrow> bool \<Rightarrow> Card list list \<Rightarrow> GamePlayer" where
  "seat u i h laid gs =
     \<lparr>player_id = CHR ''p'' # u, user_id = u, seat_index = i, hand = h, current_phase_index = 0,
      has_laid_down = laid, laid_down_cards = gs, hits = [], score = 0\<rparr>"

definition table :: "nat \<Rightarrow> TurnPhase \<Rightarrow> Card list \<Rightarrow> Card list \<Rightarrow> GamePlayer list \<Rightarrow> string \<Rightarrow> GameState" where
  "table i ph dp disc ps u =
     \<lparr>game = \<lparr>status = playing, current_player_index = i, turn_phase = ph, draw_pile = dp,
               discard_pile = disc\<rparr>,
      players = ps, user = u, phaseSet = Some getStandardPhases, error = None\<rparr>"

text \<open>Seat A is to draw; the draw pile is empty and the discard pile holds five cards.\<close>

definition exDraw :: GameState where
  "exDraw = table 0 draw []
     [numCard ''d1'' red 1, numCard ''d2'' blue 2, numCard ''d3'' green 3, numCard ''d4'' yellow 4,
      numCard ''d5'' red 5]
     [seat ''A'' 0 [numCard ''a1'' red 7] False [], seat ''B'' 1 [numCard ''b1'' blue 7] False []] ''A''"

text \<open>The same with a single card in the discard pile.\<close>

definition exExhausted :: GameState where
  "exExhausted = table 0 draw [] [numCard ''d1'' red 1]
     [seat ''A'' 0 [numCard ''a1'' red 7] False [], seat ''B'' 1 [numCard ''b1'' blue 7] False []] ''A''"

text \<open>Three seats; seat A is to play and holds the skip card and one more card.\<close>

definition exSkip :: GameState where
  "exSkip = table 0 play [numCard ''d1'' red 1] [numCard ''d2'' blue 2]
     [seat ''A'' 0 [skipCard, numCard ''a1'' red 7] False [],
      seat ''B'' 1 [numCard ''b1'' blue 7] False [],
      seat ''C'' 2 [numCard ''c1'' green 7] False []] ''A''"

text \<open>Three seats; seat A is to play and holds the skip card only.\<close>

definition exSkipOut :: GameState where
  "exSkipOut = table 0 play [numCard ''d1'' red 1] [numCard ''d2'' blue 2]
     [seat ''A'' 0 [skipCard] False [],
      seat ''B'' 1 [numCard ''b1'' blue 7] False [],
      seat ''C'' 2 [numCard ''c1'' green 7] False []] ''A''"

text \<open>
  Two seats; seat A has laid down and holds one card (red 5), seat B has not laid down and
  holds one wild and one skip.
\<close>

definition exRoundEnd :: GameState where
  "exRoundEnd = table 0 play [numCard ''d1'' red 1] [numCard ''d2'' blue 2]
     [seat ''A'' 0 [numCard ''a1'' red 5] True
        [[numCard ''g1'' red 3, numCard ''g2'' blue 3, numCard ''g3'' green 3],
         [numCard ''g4'' red 4, numCard ''g5'' blue 4, numCard ''g6'' green 4]],
      seat ''B'' 1 [wildCard ''w1'', skipCard] False []] ''A''"

(* PROOFS *)

section \<open>Deck Manager: composition, shuffle, dealing\<close>

lemma upt8: "[0..<8] = [0,1,2,3,4,5,6,7]" by (simp add: upt_rec)
lemma upt4: "[0..<4] = [0,1,2,3]" by (simp add: upt_rec)
lemma upt2: "[0..<2] = [0,1]" by (simp add: upt_rec)

lemma createDeck_length: "length (createDeck gen) = 108"
  by (simp add: createDeck_def numberCards_def wildCards_def skipCards_def COLORS_def VALUES_def
      WILD_COUNT_def SKIP_COUNT_def upt2)

lemma createDeck_skips: "length (filter isSkip (createDeck gen)) = 4"
  by (simp add: createDeck_def numberCards_def wildCards_def skipCards_def COLORS_def VALUES_def
      WILD_COUNT_def SKIP_COUNT_def mkCard_def enumerate_append_eq upt8 upt4 upt2)

lemma createDeck_wilds: "length (filter isWild (createDeck gen)) = 8"
  by (simp add: createDeck_def numberCards_def wildCards_def skipCards_def COLORS_def VALUES_def
      WILD_COUNT_def SKIP_COUNT_def mkCard_def enumerate_append_eq upt8 upt4 upt2)

lemma mset_shuffle_loop: "i < length xs \<Longrightarrow> mset (shuffle_loop rnd i xs) = mset xs"
proof (induction i arbitrary: xs)
  case 0 then show ?case by simp
next
  case (Suc i)
  let ?j = "rnd (Suc i) mod (Suc i + 1)"
  have "?j < Suc i + 1" by (rule mod_less_divisor) simp
  then have j: "?j < length xs" using Suc.prems by linarith
  have "mset (xs[Suc i := xs ! ?j, ?j := xs ! Suc i]) = mset xs"
    using mset_swap[OF j Suc.prems] by simp
  moreover have "i < length (xs[Suc i := xs ! ?j, ?j := xs ! Suc i])" using Suc.prems by simp
  ultimately show ?case using Suc.IH by (simp add: Let_def)
qed

lemma mset_shuffle: "mset (shuffle rnd xs) = mset xs"
  by (cases xs) (simp_all add: shuffle_def mset_shuffle_loop)


lemma dealHands_loop_eq:
  "dealHands_loop n cpp hs rem =
     (hs @ map (\<lambda>i. take cpp (drop (i * cpp) rem)) [0..<n], drop (n * cpp) rem)"
proof (induction n arbitrary: hs rem)
  case 0 then show ?case by simp
next
  case (Suc n)
  have "map (\<lambda>i. take cpp (drop (i * cpp) rem)) [0..<Suc n] =
        take cpp rem # map (\<lambda>i. take cpp (drop (i * cpp) (drop cpp rem))) [0..<n]"
    by (simp add: upt_conv_Cons map_Suc_upt[symmetric] add.commute del: upt_Suc)
  then show ?case using Suc.IH by (simp add: dealCards_def add.commute del: upt_Suc)
qed

lemma dealHands_eq:
  "dealHands deck n cpp = (map (\<lambda>i. take cpp (drop (i * cpp) deck)) [0..<n], drop (n * cpp) deck)"
  by (simp add: dealHands_def dealHands_loop_eq)

lemma flipTopCard_skips:
  "\<forall>x\<in>set skips. isSkip x \<Longrightarrow> \<not> isSkip c \<Longrightarrow>
   flipTopCard (skips @ c # rest) = Some (rest @ skips, [c])"
proof (induction skips arbitrary: rest)
  case Nil
  then show ?case by (subst flipTopCard.simps) (simp add: dealCards_def)
next
  case (Cons s skips)
  have "flipTopCard ((s # skips) @ c # rest) = flipTopCard (skips @ c # (rest @ [s]))"
    using Cons.prems by (subst flipTopCard.simps) (simp add: dealCards_def)
  also have "\<dots> = Some ((rest @ [s]) @ skips, [c])"
    using Cons.prems by (intro Cons.IH) auto
  finally show ?case by simp
qed

lemma flipTopCard_Nil: "flipTopCard [] = Some ([], [])"
  by (subst flipTopCard.simps) simp

lemma filter_drop_le: "length (filter P (drop k xs)) \<le> length (filter P xs)"
proof -
  have "length (filter P xs) = length (filter P (take k xs)) + length (filter P (drop k xs))"
    by (metis append_take_drop_id filter_append length_append)
  then show ?thesis by simp
qed

lemma shuffled_length: "length (createShuffledDeck gen rnd) = 108"
  by (metis createShuffledDeck_def mset_shuffle createDeck_length size_mset)

lemma shuffled_skips: "length (filter isSkip (createShuffledDeck gen rnd)) = 4"
proof -
  have "mset (filter isSkip (createShuffledDeck gen rnd)) = mset (filter isSkip (createDeck gen))"
    by (simp add: createShuffledDeck_def mset_shuffle)
  then show ?thesis by (metis createDeck_skips size_mset)
qed

lemma split_first_nonskip:
  assumes "length (filter isSkip xs) < length xs"
  shows "\<exists>skips c rest. xs = skips @ c # rest \<and> (\<forall>x\<in>set skips. isSkip x) \<and> \<not> isSkip c"
proof -
  have "\<exists>x\<in>set xs. \<not> isSkip x"
  proof (rule ccontr)
    assume "\<not> (\<exists>x\<in>set xs. \<not> isSkip x)"
    then have "filter isSkip xs = xs" by (simp add: filter_id_conv)
    with assms show False by simp
  qed
  then obtain ys c zs where "xs = ys @ c # zs" "\<not> isSkip c" "\<forall>x\<in>set ys. \<not> \<not> isSkip x"
    using split_list_first_prop[of xs "\<lambda>x. \<not> isSkip x"] by blast
  then show ?thesis by auto
qed

text \<open>
  Claim C8. For every player count from 2 to 6 and every outcome of the random id source
  and of the shuffle, \<open>setupGame\<close> returns: the pile left after dealing is some skip
  cards, then a card \<open>c\<close> that is not a skip, then the rest; the loop moves each of the
  leading skips to the bottom of the draw pile and stops at \<open>c\<close>; the returned discard pile
  is exactly \<open>[c]\<close>, the returned draw pile is the rest followed by the moved skips.
\<close>

theorem setupGame_terminates:
  assumes "2 \<le> playerCount" "playerCount \<le> 6"
  shows "\<exists>skips c rest.
           snd (dealHands (createShuffledDeck gen rnd) playerCount 10) = skips @ c # rest
           \<and> (\<forall>x\<in>set skips. isSkip x) \<and> \<not> isSkip c
           \<and> setupGame gen rnd playerCount =
               Some \<lparr>hands = fst (dealHands (createShuffledDeck gen rnd) playerCount 10),
                     drawPile = rest @ skips, discardPile = [c]\<rparr>"
proof -
  let ?deck = "createShuffledDeck gen rnd"
  let ?rem = "drop (playerCount * 10) ?deck"
  have len: "length ?rem = 108 - playerCount * 10" by (simp add: shuffled_length)
  have "length (filter isSkip ?rem) \<le> 4"
    using filter_drop_le[of isSkip "playerCount * 10" ?deck] by (simp add: shuffled_skips)
  also have "4 < length ?rem" using assms len by simp
  finally obtain skips c rest where
    sp: "?rem = skips @ c # rest" "\<forall>x\<in>set skips. isSkip x" "\<not> isSkip c"
    using split_first_nonskip[of ?rem] by blast
  have "flipTopCard ?rem = Some (rest @ skips, [c])"
    unfolding sp(1) using sp(2,3) by (rule flipTopCard_skips)
  then have "setupGame gen rnd playerCount =
               Some \<lparr>hands = fst (dealHands ?deck playerCount 10),
                     drawPile = rest @ skips, discardPile = [c]\<rparr>"
    by (simp add: setupGame_def dealHands_eq)
  with sp show ?thesis by (auto simp: dealHands_eq)
qed

theorem setupGame_terminates_witness:
  "(2::nat) \<le> 2 \<and> (2::nat) \<le> 6 \<and>
   (\<exists>su c. setupGame (\<lambda>k. ''a'') (\<lambda>i. 0) 2 = Some su \<and> discardPile su = [c] \<and> \<not> isSkip c)"
proof -
  have a: "(2::nat) \<le> 2" and b: "(2::nat) \<le> 6" by simp_all
  from setupGame_terminates[OF a b, of "\<lambda>k. ''a''" "\<lambda>i. 0"] show ?thesis by auto
qed

section \<open>Phase Matcher: the run criterion\<close>

lemma sorted_hd_Min: "sorted xs \<Longrightarrow> xs \<noteq> [] \<Longrightarrow> hd xs = Min (set xs)"
  by (cases xs) (auto intro!: Min_eqI[symmetric])

lemma sorted_last_Max: "sorted xs \<Longrightarrow> xs \<noteq> [] \<Longrightarrow> last xs = Max (set xs)"
  by (induction xs) (auto simp: max_def intro!: Max_eqI[symmetric] split: if_splits)

lemma remdups_length_distinct: "(length (remdups xs) = length xs) = distinct xs"
  by (metis distinct_remdups length_remdups_eq remdups_id_iff_distinct)

lemma isValidRun_core:
  assumes "nonWilds \<noteq> []"
  shows "isValidRun nonWilds wildCount (length nonWilds + wildCount) =
         (distinct (map card_value nonWilds) \<and>
          last (sort (map card_value nonWilds)) - hd (sort (map card_value nonWilds)) + 1
            \<le> int (length nonWilds + wildCount))"
proof -
  define vals where "vals = sort (map card_value nonWilds)"
  define lo where "lo = hd vals"
  define hi where "hi = last vals"
  have di: "(length (remdups vals) = length vals) = distinct (map card_value nonWilds)"
    using remdups_length_distinct[of vals] by (simp add: vals_def)
  have len: "length vals = length nonWilds" by (simp add: vals_def)
  have "isValidRun nonWilds wildCount (length nonWilds + wildCount) =
        (length (remdups vals) = length vals \<and> hi - lo + 1 \<le> int (length nonWilds + wildCount))"
    using assms unfolding isValidRun_def Let_def vals_def[symmetric] lo_def[symmetric] hi_def[symmetric]
    by (auto simp: len)
  then show ?thesis unfolding di by (simp add: hi_def lo_def vals_def)
qed

lemma isValidRun_eq:
  assumes "nonWilds \<noteq> []"
  shows "isValidRun nonWilds wildCount (length nonWilds + wildCount) =
         (distinct (map card_value nonWilds) \<and>
          Max (set (map card_value nonWilds)) - Min (set (map card_value nonWilds)) + 1
            \<le> int (length nonWilds + wildCount))"
proof -
  let ?vals = "sort (map card_value nonWilds)"
  have ne: "?vals \<noteq> []" using assms by (metis length_sort length_map length_0_conv)
  have hd: "hd ?vals = Min (set (map card_value nonWilds))"
    using sorted_hd_Min[OF sorted_sort ne] by simp
  have la: "last ?vals = Max (set (map card_value nonWilds))"
    using sorted_last_Max[OF sorted_sort ne] by simp
  show ?thesis unfolding isValidRun_core[OF assms] hd la ..
qed

text \<open>
  Claim C5, as amended. \<open>isValidGroup(cards, 'run')\<close> is true if and only if the cards
  contain no skip card and the run criterion of the specification holds (ranks of the
  cards that are not wild pairwise distinct, span at most the number of cards, wilds at
  least span minus the number of cards that are not wild). The skip guard comes first in
  the code and is absent from the claim.
\<close>

theorem isValidGroup_run_amended:
  "isValidGroup cards run_req = (\<not> list_ex isSkip cards \<and> runSpec cards)"
proof (cases "list_ex isSkip cards")
  case True
  then show ?thesis by (simp add: isValidGroup_def)
next
  case False
  then have nw: "filter (\<lambda>c. \<not> isWild c \<and> \<not> isSkip c) cards = filter (\<lambda>c. \<not> isWild c) cards"
    by (auto simp: list_ex_iff intro!: filter_cong)
  have len: "length cards = length (filter (\<lambda>c. \<not> isWild c) cards) + length (filter isWild cards)"
    using sum_length_filter_compl[of isWild cards] by simp
  show ?thesis
  proof (cases "filter (\<lambda>c. \<not> isWild c) cards = []")
    case True
    then show ?thesis using False by (simp add: isValidGroup_def nw isValidRun_def runSpec_def)
  next
    case ne: False
    have "isValidGroup cards run_req =
          isValidRun (filter (\<lambda>c. \<not> isWild c) cards) (length (filter isWild cards))
            (length (filter (\<lambda>c. \<not> isWild c) cards) + length (filter isWild cards))"
      using False len by (simp add: isValidGroup_def nw Let_def)
    also have "\<dots> = runSpec cards"
    proof -
      define mx where "mx = Max (set (map card_value (filter (\<lambda>c. \<not> isWild c) cards)))"
      define mn where "mn = Min (set (map card_value (filter (\<lambda>c. \<not> isWild c) cards)))"
      show ?thesis
        unfolding isValidRun_eq[OF ne] runSpec_def Let_def mx_def[symmetric] mn_def[symmetric]
        using ne len by auto
    qed
    finally show ?thesis using False by simp
  qed
qed

text \<open>
  Claim C5 as stated fails on a group that holds a skip card: for the single skip card
  the criterion of the claim holds (one rank, span 1, no wild needed), and the code
  rejects the group.
\<close>

theorem isValidGroup_run_counterexample:
  "\<not> (isValidGroup [skipCard] run_req = runSpec [skipCard])"
  by (simp add: isValidGroup_def runSpec_def skipCard_def)

end
